theory Spec2Isabelle
  imports Complex_Main
begin

section \<open>Numbers\<close>

text \<open>
  Every quantity of the planner is a TypeScript \<^verbatim>\<open>number\<close>. Money, rates and the
  \<^verbatim>\<open>years\<close> argument of the closed-form projector are modelled as \<^typ>\<open>real\<close>; ages
  (whole numbers, set by sliders) and loop counters, which the program only ever adds,
  subtracts and compares, are modelled as \<^typ>\<open>int\<close>. Rounding of IEEE doubles and
  overflow to infinity are outside the model.

  \<^verbatim>\<open>Math.pow(x, y)\<close> is the real power \<open>x powr y\<close> for a positive base and the
  integer power for an integral exponent; a zero base with a positive fractional exponent
  gives zero. In the two remaining cases JavaScript has no finite answer (\<^verbatim>\<open>Infinity\<close>
  for a zero base with a negative exponent, \<^verbatim>\<open>NaN\<close> for a negative base with a
  fractional exponent) and the value of \<open>Math_pow\<close> there is a placeholder: the projector
  calls it with a positive exponent only, and the results below that evaluate it are
  stated for a base that is not negative or for a whole exponent.
\<close>

definition Math_pow :: "real \<Rightarrow> real \<Rightarrow> real" where
  "Math_pow x y =
     (if 0 < x then x powr y
      else if y = of_int \<lfloor>y\<rfloor> then x powi \<lfloor>y\<rfloor>
      else 0)"

text \<open>\<^verbatim>\<open>Math.round\<close> rounds to the nearest integer, halves towards plus infinity.\<close>

definition Math_round :: "real \<Rightarrow> real" where
  "Math_round x = of_int \<lfloor>x + 1 / 2\<rfloor>"

section \<open>The closed-form projector, twice\<close>

text \<open>
  \<^verbatim>\<open>calculateFutureValue\<close> of \<^verbatim>\<open>RetirementCalculator.tsx\<close> (lines 156-179).
\<close>

definition calculateFutureValue :: "real \<Rightarrow> real \<Rightarrow> real \<Rightarrow> real \<Rightarrow> real" where
  "calculateFutureValue principalAmount monthlyContribution annualRate years =
     (if years \<le> 0 then principalAmount + monthlyContribution * 12
      else
        let monthlyRate = annualRate / 12;
            months = years * 12;
            futureValuePrincipal = principalAmount * Math_pow (1 + annualRate) years;
            futureValueAnnuity =
              (if monthlyRate > 0
               then monthlyContribution * (Math_pow (1 + monthlyRate) months - 1) / monthlyRate
               else monthlyContribution * months)
        in futureValuePrincipal + futureValueAnnuity)"

text \<open>
  \<^verbatim>\<open>calculateFutureValue\<close> of the GrowthProjection component (lines 38-61 there): the same
  body behind a different guard.
\<close>

definition calculateFutureValue_GP :: "real \<Rightarrow> real \<Rightarrow> real \<Rightarrow> real \<Rightarrow> real" where
  "calculateFutureValue_GP principalAmount monthlyContribution annualRate years =
     (if years \<le> 0 then principalAmount
      else
        let monthlyRate = annualRate / 12;
            months = years * 12;
            futureValuePrincipal = principalAmount * Math_pow (1 + annualRate) years;
            futureValueAnnuity =
              (if monthlyRate > 0
               then monthlyContribution * (Math_pow (1 + monthlyRate) months - 1) / monthlyRate
               else monthlyContribution * months)
        in futureValuePrincipal + futureValueAnnuity)"

section \<open>GrowthProjection: the chart's series\<close>

text \<open>
  The props of the component, as \<^verbatim>\<open>RetirementCalculator\<close> passes them (it passes every
  optional one, so the defaults of the destructuring never apply).
\<close>

record GrowthProjectionProps =
  currentSavings :: real
  currentInvestments :: real
  monthlyContributionsSavings :: real
  monthlyContributionsInvestment :: real
  retirementAge :: int
  currentAge :: int
  investmentRate :: real
  savingsRate :: real
  withdrawalRate :: real
  projectedAtRetirement :: real
  viewAge :: int

text \<open>
  A point of the chart. A past-retirement point divides by the previous total; when that
  total is zero the quotient is \<^verbatim>\<open>NaN\<close> or infinite, and so is everything computed
  from it. \<open>None\<close> stands for such a value that is not a finite number.
\<close>

record ProjectionPoint =
  year :: int
  age :: int
  savings :: "real option"
  investments :: "real option"
  total :: "real option"

datatype error = TypeError

definition yearsToRetirement_GP :: "GrowthProjectionProps \<Rightarrow> int" where
  "yearsToRetirement_GP p = retirementAge p - currentAge p"

definition maxAge :: "GrowthProjectionProps \<Rightarrow> int" where
  "maxAge p = max (viewAge p) (retirementAge p) + 1"

text \<open>The branch \<^verbatim>\<open>year <= yearsToRetirement\<close> of the loop body.\<close>

definition preRetirementPoint :: "GrowthProjectionProps \<Rightarrow> int \<Rightarrow> ProjectionPoint" where
  "preRetirementPoint p y =
     (let projectedSavings =
            calculateFutureValue_GP (currentSavings p) (monthlyContributionsSavings p)
              (savingsRate p / 100) (of_int y);
          projectedInvestments =
            calculateFutureValue_GP (currentInvestments p) (monthlyContributionsInvestment p)
              (investmentRate p / 100) (of_int y);
          tot = projectedSavings + projectedInvestments
      in \<lparr>year = y, age = currentAge p + y,
          savings = Some (Math_round projectedSavings),
          investments = Some (Math_round projectedInvestments),
          total = Some (Math_round tot)\<rparr>)"

text \<open>
  The other branch, from the previous point. With three finite fields and a nonzero
  previous total the arithmetic is the source's, line by line; \<^verbatim>\<open>x || 0.5\<close> replaces a
  zero ratio by one half. With a zero previous total \<^verbatim>\<open>blendedRate\<close> is not finite, the
  balance multiplied by it is not, and neither are the three fields; from points that
  are not finite the quotient of the ratio is \<^verbatim>\<open>NaN\<close>, and the fields stay so.
\<close>

definition postRetirementPoint ::
    "GrowthProjectionProps \<Rightarrow> int \<Rightarrow> ProjectionPoint \<Rightarrow> ProjectionPoint" where
  "postRetirementPoint p y previousYear =
     (case (savings previousYear, investments previousYear, total previousYear) of
        (Some prevSavings, Some prevInvestments, Some prevTotal) \<Rightarrow>
          if prevTotal = 0
          then \<lparr>year = y, age = currentAge p + y,
                 savings = None, investments = None, total = None\<rparr>
          else
            let annualWithdrawal = projectedAtRetirement p * (withdrawalRate p / 100);
                balance0 = max 0 (prevTotal - annualWithdrawal);
                blendedRate = (prevSavings / prevTotal) * (savingsRate p / 100)
                            + (prevInvestments / prevTotal) * (investmentRate p / 100);
                balance1 = balance0 * (1 + blendedRate);
                savingsRatio =
                  (if prevSavings / prevTotal = 0 then 1 / 2 else prevSavings / prevTotal);
                projectedSavings = balance1 * savingsRatio;
                projectedInvestments = balance1 * (1 - savingsRatio)
            in \<lparr>year = y, age = currentAge p + y,
                 savings = Some (Math_round projectedSavings),
                 investments = Some (Math_round projectedInvestments),
                 total = Some (Math_round balance1)\<rparr>
      | _ \<Rightarrow> \<lparr>year = y, age = currentAge p + y,
                 savings = None, investments = None, total = None\<rparr>)"

text \<open>
  \<^verbatim>\<open>for (let year = 0; year <= maxAge; year++)\<close>. Past retirement the body reads the
  last point pushed; when there is none, \<^verbatim>\<open>previousYear\<close> is \<^verbatim>\<open>undefined\<close> and reading
  its \<^verbatim>\<open>total\<close> throws a \<^verbatim>\<open>TypeError\<close>.
\<close>

function generateProjections_loop ::
    "GrowthProjectionProps \<Rightarrow> int \<Rightarrow> ProjectionPoint list \<Rightarrow> error + ProjectionPoint list" where
  "generateProjections_loop p y projections =
     (if y \<le> maxAge p then
        (if y \<le> yearsToRetirement_GP p
         then generateProjections_loop p (y + 1) (projections @ [preRetirementPoint p y])
         else if projections = [] then Inl TypeError
         else generateProjections_loop p (y + 1)
                (projections @ [postRetirementPoint p y (last projections)]))
      else Inr projections)"
  by pat_completeness auto
termination
  by (relation "measure (\<lambda>(p, y, projections). nat (maxAge p + 1 - y))") auto

definition generateProjections :: "GrowthProjectionProps \<Rightarrow> error + ProjectionPoint list" where
  "generateProjections p = generateProjections_loop p 0 []"

section \<open>RetirementCalculator: state, totals and the yearly simulation\<close>

datatype AccountType = Savings | Investment | K401 | RothIRA

record Account =
  id_acct :: string
  name_acct :: string
  type_acct :: AccountType
  amount :: real
  monthlyContribution :: real

record RetirementData =
  accounts :: "Account list"
  currentAge :: int
  retirementAge :: int
  investmentRate :: real
  savingsRate :: real
  withdrawalRate :: real

text \<open>\<^verbatim>\<open>accounts.filter(a => a.type === t).reduce((sum, a) => sum + f(a), 0)\<close>\<close>

definition sumOfType :: "AccountType \<Rightarrow> (Account \<Rightarrow> real) \<Rightarrow> RetirementData \<Rightarrow> real" where
  "sumOfType t f d = foldl (\<lambda>sum a. sum + f a) 0 (filter (\<lambda>a. type_acct a = t) (accounts d))"

definition totalSavings :: "RetirementData \<Rightarrow> real" where
  "totalSavings = sumOfType Savings amount"

definition totalInvestments :: "RetirementData \<Rightarrow> real" where
  "totalInvestments = sumOfType Investment amount"

definition total401k :: "RetirementData \<Rightarrow> real" where
  "total401k = sumOfType K401 amount"

definition totalRothIRA :: "RetirementData \<Rightarrow> real" where
  "totalRothIRA = sumOfType RothIRA amount"

definition monthlyContributionsSavings :: "RetirementData \<Rightarrow> real" where
  "monthlyContributionsSavings = sumOfType Savings monthlyContribution"

definition monthlyContributionsInvestment :: "RetirementData \<Rightarrow> real" where
  "monthlyContributionsInvestment = sumOfType Investment monthlyContribution"

definition monthlyContributions401k :: "RetirementData \<Rightarrow> real" where
  "monthlyContributions401k = sumOfType K401 monthlyContribution"

definition monthlyContributionsRothIRA :: "RetirementData \<Rightarrow> real" where
  "monthlyContributionsRothIRA = sumOfType RothIRA monthlyContribution"

definition yearsToRetirement :: "RetirementData \<Rightarrow> int" where
  "yearsToRetirement d = retirementAge d - currentAge d"

definition investmentGrowthRate :: "RetirementData \<Rightarrow> real" where
  "investmentGrowthRate d = investmentRate d / 100"

definition savingsGrowthRate :: "RetirementData \<Rightarrow> real" where
  "savingsGrowthRate d = savingsRate d / 100"

definition projectedInvestmentValue :: "RetirementData \<Rightarrow> real" where
  "projectedInvestmentValue d =
     calculateFutureValue
       (totalInvestments d + total401k d + totalRothIRA d)
       (monthlyContributionsInvestment d + monthlyContributions401k d
          + monthlyContributionsRothIRA d)
       (investmentGrowthRate d)
       (of_int (yearsToRetirement d))"

definition projectedSavings :: "RetirementData \<Rightarrow> real" where
  "projectedSavings d =
     calculateFutureValue (totalSavings d) (monthlyContributionsSavings d)
       (savingsGrowthRate d) (of_int (yearsToRetirement d))"

definition projectedTotal :: "RetirementData \<Rightarrow> real" where
  "projectedTotal d = projectedInvestmentValue d + projectedSavings d"

text \<open>The locals of \<^verbatim>\<open>simulateYearly\<close> that are fixed before its loop.\<close>

definition endAge :: int where
  "endAge = 100"

definition totalYears :: "RetirementData \<Rightarrow> int" where
  "totalYears d = endAge - currentAge d"

definition annualContribSavings :: "RetirementData \<Rightarrow> real" where
  "annualContribSavings d = monthlyContributionsSavings d * 12"

definition annualContribInvestment :: "RetirementData \<Rightarrow> real" where
  "annualContribInvestment d =
     (monthlyContributionsInvestment d + monthlyContributions401k d
        + monthlyContributionsRothIRA d) * 12"

definition annualWithdrawal :: "RetirementData \<Rightarrow> real" where
  "annualWithdrawal d = projectedTotal d * (withdrawalRate d / 100)"

record Row =
  year :: int
  age :: int
  returnPct :: real
  salaryBasis :: real
  annualContribution :: real
  employerMatch :: real
  retirementIncome :: real
  payout :: real
  interestEarned :: real
  balance :: real

text \<open>
  The two branches of the loop body. Each returns
  \<open>(contributions, payout, interestEarned, bs, bi)\<close>: the three locals it assigns and the
  two running balances after it.
\<close>

definition preRetirement :: "RetirementData \<Rightarrow> real \<Rightarrow> real \<Rightarrow> real \<times> real \<times> real \<times> real \<times> real" where
  "preRetirement d bs bi =
     (let bs1 = bs + annualContribSavings d;
          bi1 = bi + annualContribInvestment d;
          bsAfter = bs1 * (1 + savingsGrowthRate d);
          biAfter = bi1 * (1 + investmentGrowthRate d);
          interest = (bsAfter - bs1) + (biAfter - bi1)
      in (annualContribSavings d + annualContribInvestment d, 0, interest, bsAfter, biAfter))"

definition postRetirement :: "RetirementData \<Rightarrow> real \<Rightarrow> real \<Rightarrow> real \<times> real \<times> real \<times> real \<times> real" where
  "postRetirement d bs bi =
     (let startTotalBefore = bs + bi;
          withdrawal = min startTotalBefore (annualWithdrawal d);
          totalAfterWithdrawal = max 0 (startTotalBefore - withdrawal);
          savingsRatio = (if startTotalBefore > 0 then bs / startTotalBefore else 1 / 2);
          bsPreGrow = totalAfterWithdrawal * savingsRatio;
          biPreGrow = totalAfterWithdrawal * (1 - savingsRatio);
          bsAfter = bsPreGrow * (1 + savingsGrowthRate d);
          biAfter = biPreGrow * (1 + investmentGrowthRate d);
          interest = (bsAfter - bsPreGrow) + (biAfter - biPreGrow)
      in (0, withdrawal, interest, bsAfter, biAfter))"

text \<open>One pass of the loop body: the row pushed and the balances carried on.\<close>

definition simulateYearly_body :: "RetirementData \<Rightarrow> int \<Rightarrow> real \<Rightarrow> real \<Rightarrow> Row \<times> real \<times> real" where
  "simulateYearly_body d y bs bi =
     (let startTotal = bs + bi;
          blendedRate =
            (if startTotal > 0
             then (bs / startTotal) * savingsGrowthRate d
                  + (bi / startTotal) * investmentGrowthRate d
             else (investmentGrowthRate d + savingsGrowthRate d) / 2)
      in case (if y \<le> yearsToRetirement d then preRetirement d bs bi
               else postRetirement d bs bi) of
           (contributions, paid, interest, bs', bi') \<Rightarrow>
             (\<lparr>year = y, age = currentAge d + y,
               returnPct = blendedRate * 100,
               salaryBasis = startTotal,
               annualContribution = contributions,
               employerMatch = 0,
               retirementIncome = (if y > yearsToRetirement d then annualWithdrawal d else 0),
               payout = paid,
               interestEarned = interest,
               balance = bs' + bi'\<rparr>, bs', bi'))"

text \<open>\<^verbatim>\<open>for (let y = 0; y <= totalYears; y++)\<close>, with the two balances and the rows so far.\<close>

function simulateYearly_loop ::
    "RetirementData \<Rightarrow> int \<Rightarrow> real \<Rightarrow> real \<Rightarrow> Row list \<Rightarrow> Row list" where
  "simulateYearly_loop d y bs bi rows =
     (if y \<le> totalYears d then
        (case simulateYearly_body d y bs bi of
           (row, bs', bi') \<Rightarrow> simulateYearly_loop d (y + 1) bs' bi' (rows @ [row]))
      else rows)"
  by pat_completeness auto
termination
  by (relation "measure (\<lambda>(d, y, bs, bi, rows). nat (totalYears d + 1 - y))") auto

definition simulateYearly :: "RetirementData \<Rightarrow> Row list" where
  "simulateYearly d =
     simulateYearly_loop d 0 (totalSavings d)
       (totalInvestments d + total401k d + totalRothIRA d) []"

text \<open>
  The props \<^verbatim>\<open>RetirementCalculator\<close> renders \<^verbatim>\<open>GrowthProjection\<close> with (lines 295-308);
  \<^verbatim>\<open>viewAge\<close> is a piece of state of its own.
\<close>

definition growthProjectionProps :: "RetirementData \<Rightarrow> int \<Rightarrow> GrowthProjectionProps" where
  "growthProjectionProps d view =
     \<lparr>currentSavings = totalSavings d,
      currentInvestments = totalInvestments d + total401k d + totalRothIRA d,
      monthlyContributionsSavings = monthlyContributionsSavings d,
      monthlyContributionsInvestment =
        monthlyContributionsInvestment d + monthlyContributions401k d
          + monthlyContributionsRothIRA d,
      retirementAge = retirementAge d,
      currentAge = currentAge d,
      investmentRate = investmentRate d,
      savingsRate = savingsRate d,
      withdrawalRate = withdrawalRate d,
      projectedAtRetirement = projectedTotal d,
      viewAge = view\<rparr>"

declare generateProjections_loop.simps [simp del]
declare simulateYearly_loop.simps [simp del]

section \<open>Concrete states\<close>

text \<open>
  Scenario A of the specification: one savings account of 10000 with 100 a month, 2 and 5
  percent growth, age 30, retirement at 31, no withdrawal.
\<close>

definition scenarioA :: RetirementData where
  "scenarioA =
     \<lparr>accounts = [\<lparr>id_acct = ''1'', name_acct = ''Savings'', type_acct = Savings,
                    amount = 10000, monthlyContribution = 100\<rparr>],
      currentAge = 30, retirementAge = 31,
      investmentRate = 5, savingsRate = 2, withdrawalRate = 0\<rparr>"

text \<open>Scenario C: retirement age equal to the current age, a 4 percent withdrawal.\<close>

definition scenarioC :: RetirementData where
  "scenarioC =
     \<lparr>accounts = [\<lparr>id_acct = ''1'', name_acct = ''Savings'', type_acct = Savings,
                    amount = 1000, monthlyContribution = 100\<rparr>],
      currentAge = 65, retirementAge = 65,
      investmentRate = 5, savingsRate = 2, withdrawalRate = 4\<rparr>"

text \<open>
  A state past its retirement age (both sliders allow it): the first row already
  withdraws, and the withdrawal sized from the projection exceeds what is there.
\<close>

definition scenarioLate :: RetirementData where
  "scenarioLate =
     \<lparr>accounts = [\<lparr>id_acct = ''1'', name_acct = ''Savings'', type_acct = Savings,
                    amount = 100, monthlyContribution = 1000\<rparr>],
      currentAge = 65, retirementAge = 64,
      investmentRate = 5, savingsRate = 2, withdrawalRate = 8\<rparr>"

text \<open>
  The planner's initial ages and rates (30, 65; 5, 2 and 4 percent) with one savings
  account; the chart is first shown with \<^verbatim>\<open>viewAge\<close> at the retirement age.
\<close>

definition scenarioDefault :: RetirementData where
  "scenarioDefault =
     \<lparr>accounts = [\<lparr>id_acct = ''1'', name_acct = ''Savings'', type_acct = Savings,
                    amount = 10000, monthlyContribution = 100\<rparr>],
      currentAge = 30, retirementAge = 65,
      investmentRate = 5, savingsRate = 2, withdrawalRate = 4\<rparr>"

text \<open>
  A state one year before retirement, with an investment account growing at 12 percent:
  the closed form runs over one year, and row 2 is the first row that withdraws.
\<close>

definition scenarioNear :: RetirementData where
  "scenarioNear =
     \<lparr>accounts = [\<lparr>id_acct = ''1'', name_acct = ''Fund'', type_acct = Investment,
                    amount = 1000, monthlyContribution = 100\<rparr>],
      currentAge = 64, retirementAge = 65,
      investmentRate = 12, savingsRate = 2, withdrawalRate = 4\<rparr>"

section \<open>The body of the projector as a function of real years\<close>

text \<open>
  The common body of the two copies, for a rate that is not negative, as a function of
  any real number of years.
\<close>

definition closedForm :: "real \<Rightarrow> real \<Rightarrow> real \<Rightarrow> real \<Rightarrow> real" where
  "closedForm p m r y =
     p * (1 + r) powr y
     + (if 0 < r then m * ((1 + r / 12) powr (y * 12) - 1) / (r / 12) else m * (y * 12))"

section \<open>The closed form\<close>

lemma Math_pow_pos: "0 < x \<Longrightarrow> Math_pow x y = x powr y"
  by (simp add: Math_pow_def)

lemma Math_pow_zero: "0 < y \<Longrightarrow> Math_pow 0 y = 0"
  by (simp add: Math_pow_def)

lemma Math_pow_nat: "Math_pow x (real n) = x ^ n"
  by (simp add: Math_pow_def powr_realpow)

lemma calculateFutureValue_pos:
  "0 < years \<Longrightarrow> calculateFutureValue p m r years =
     p * Math_pow (1 + r) years
     + (if 0 < r then m * (Math_pow (1 + r / 12) (years * 12) - 1) / (r / 12)
        else m * (years * 12))"
  by (simp add: calculateFutureValue_def Let_def)

lemma calculateFutureValue_GP_pos:
  "0 < years \<Longrightarrow> calculateFutureValue_GP p m r years =
     p * Math_pow (1 + r) years
     + (if 0 < r then m * (Math_pow (1 + r / 12) (years * 12) - 1) / (r / 12)
        else m * (years * 12))"
  by (simp add: calculateFutureValue_GP_def Let_def)

text \<open>
  C1. For years above zero both copies of the projector return the principal compounded
  yearly plus the annuity term: with a positive rate
  \<open>m * ((1 + r/12)^(years*12) - 1) / (r/12)\<close>, otherwise (in particular at rate zero)
  \<open>m * years * 12\<close>. The power is the real power for every rate from \<open>-1\<close> up, and the
  ordinary power for a whole number of years at any rate.
\<close>

theorem calculateFutureValue_closed_form:
  "0 < years \<Longrightarrow>
   (- 1 \<le> r \<longrightarrow>
      calculateFutureValue p m r years =
        p * (1 + r) powr years
        + (if 0 < r then m * ((1 + r / 12) powr (years * 12) - 1) / (r / 12)
           else m * years * 12)
    \<and> calculateFutureValue_GP p m r years =
        p * (1 + r) powr years
        + (if 0 < r then m * ((1 + r / 12) powr (years * 12) - 1) / (r / 12)
           else m * years * 12))
   \<and> (\<forall>n. years = real n \<longrightarrow>
      calculateFutureValue p m r years =
        p * (1 + r) ^ n
        + (if 0 < r then m * ((1 + r / 12) ^ (n * 12) - 1) / (r / 12)
           else m * years * 12)
    \<and> calculateFutureValue_GP p m r years =
        p * (1 + r) ^ n
        + (if 0 < r then m * ((1 + r / 12) ^ (n * 12) - 1) / (r / 12)
           else m * years * 12))"
proof (intro conjI impI allI)
  assume y: "0 < years" and r: "- 1 \<le> r"
  have pw: "Math_pow (1 + r) years = (1 + r) powr years"
  proof (cases "r = - 1")
    case True
    with y show ?thesis by (simp add: Math_pow_zero)
  next
    case False
    with r show ?thesis by (simp add: Math_pow_pos)
  qed
  have ann: "0 < r \<Longrightarrow> Math_pow (1 + r / 12) (years * 12) = (1 + r / 12) powr (years * 12)"
    by (simp add: Math_pow_pos add_pos_pos)
  show "calculateFutureValue p m r years =
        p * (1 + r) powr years
        + (if 0 < r then m * ((1 + r / 12) powr (years * 12) - 1) / (r / 12)
           else m * years * 12)"
    using y pw ann by (simp add: calculateFutureValue_pos)
  show "calculateFutureValue_GP p m r years =
        p * (1 + r) powr years
        + (if 0 < r then m * ((1 + r / 12) powr (years * 12) - 1) / (r / 12)
           else m * years * 12)"
    using y pw ann by (simp add: calculateFutureValue_GP_pos)
next
  fix n
  assume y: "0 < years" and n: "years = real n"
  have pw: "Math_pow (1 + r) years = (1 + r) ^ n"
    by (simp add: n Math_pow_nat)
  have "years * 12 = real (n * 12)"
    by (simp add: n)
  then have ann: "Math_pow (1 + r / 12) (years * 12) = (1 + r / 12) ^ (n * 12)"
    by (simp only: Math_pow_nat)
  show "calculateFutureValue p m r years =
        p * (1 + r) ^ n
        + (if 0 < r then m * ((1 + r / 12) ^ (n * 12) - 1) / (r / 12)
           else m * years * 12)"
    using y pw ann by (simp add: calculateFutureValue_pos)
  show "calculateFutureValue_GP p m r years =
        p * (1 + r) ^ n
        + (if 0 < r then m * ((1 + r / 12) ^ (n * 12) - 1) / (r / 12)
           else m * years * 12)"
    using y pw ann by (simp add: calculateFutureValue_GP_pos)
qed

theorem calculateFutureValue_closed_form_witness:
  "(0::real) < 2
   \<and> calculateFutureValue 1000 100 (6 / 100) 2 =
       1000 * (1 + 6 / 100) ^ 2 + 100 * ((1 + (6 / 100) / 12) ^ 24 - 1) / ((6 / 100) / 12)
   \<and> calculateFutureValue_GP 1000 100 (6 / 100) 2 =
       1000 * (1 + 6 / 100) powr 2
       + 100 * ((1 + (6 / 100) / 12) powr 24 - 1) / ((6 / 100) / 12)"
  using calculateFutureValue_closed_form [of 2 "6 / 100" 1000 100] by simp

lemma calculateFutureValue_closedForm:
  "0 < y \<Longrightarrow> 0 \<le> r \<Longrightarrow> calculateFutureValue p m r y = closedForm p m r y"
  by (simp add: calculateFutureValue_def Let_def closedForm_def Math_pow_pos add_pos_nonneg)

lemma calculateFutureValue_GP_closedForm:
  "0 < y \<Longrightarrow> 0 \<le> r \<Longrightarrow> calculateFutureValue_GP p m r y = closedForm p m r y"
  by (simp add: calculateFutureValue_GP_def Let_def closedForm_def Math_pow_pos add_pos_nonneg)

lemma closedForm_mono:
  assumes "0 \<le> p" "0 \<le> m" "0 \<le> r" "y1 \<le> y2"
  shows "closedForm p m r y1 \<le> closedForm p m r y2"
proof -
  have a: "p * (1 + r) powr y1 \<le> p * (1 + r) powr y2"
    using assms by (intro mult_left_mono powr_mono) auto
  have b: "(if 0 < r then m * ((1 + r / 12) powr (y1 * 12) - 1) / (r / 12) else m * (y1 * 12))
        \<le> (if 0 < r then m * ((1 + r / 12) powr (y2 * 12) - 1) / (r / 12) else m * (y2 * 12))"
  proof (cases "0 < r")
    case True
    have "(1 + r / 12) powr (y1 * 12) \<le> (1 + r / 12) powr (y2 * 12)"
      using assms by (intro powr_mono) auto
    then have "m * ((1 + r / 12) powr (y1 * 12) - 1) \<le> m * ((1 + r / 12) powr (y2 * 12) - 1)"
      using assms by (intro mult_left_mono) auto
    then have "m * ((1 + r / 12) powr (y1 * 12) - 1) / (r / 12)
        \<le> m * ((1 + r / 12) powr (y2 * 12) - 1) / (r / 12)"
      using True by (intro divide_right_mono) auto
    with True show ?thesis by simp
  next
    case False
    have "m * (y1 * 12) \<le> m * (y2 * 12)"
      using assms by (intro mult_left_mono) auto
    with False show ?thesis by simp
  qed
  show ?thesis unfolding closedForm_def using a b by (rule add_mono)
qed

lemma closedForm_0: "0 \<le> r \<Longrightarrow> closedForm p m r 0 = p"
  by (simp add: closedForm_def)

text \<open>After a whole year the annuity is worth at least the twelve payments (Bernoulli).\<close>

lemma closedForm_1:
  assumes "0 \<le> p" "0 \<le> m" "0 \<le> r"
  shows "p + m * 12 \<le> closedForm p m r 1"
proof -
  have a: "p \<le> p * (1 + r) powr 1"
    using assms by (simp add: mult_left_mono algebra_simps)
  have b: "m * 12 \<le> (if 0 < r then m * ((1 + r / 12) powr (1 * 12) - 1) / (r / 12)
                      else m * (1 * 12))"
  proof (cases "0 < r")
    case True
    have "1 + real 12 * (r / 12) \<le> (1 + r / 12) ^ 12"
      using True by (intro Bernoulli_inequality) auto
    then have "12 * (r / 12) \<le> (1 + r / 12) ^ 12 - 1"
      by simp
    then have "m * (12 * (r / 12)) \<le> m * ((1 + r / 12) ^ 12 - 1)"
      using assms by (intro mult_left_mono) auto
    then have "m * (12 * (r / 12)) / (r / 12) \<le> m * ((1 + r / 12) ^ 12 - 1) / (r / 12)"
      using True by (intro divide_right_mono) auto
    moreover have "m * (12 * (r / 12)) / (r / 12) = m * 12"
      using True by simp
    moreover have "(1 + r / 12) powr (1 * 12) = (1 + r / 12) ^ 12"
      using True by (simp add: add_pos_pos)
    ultimately show ?thesis using True by simp
  next
    case False
    then show ?thesis by simp
  qed
  show ?thesis unfolding closedForm_def using a b by (rule add_mono)
qed

text \<open>
  C4, as the code has it. With principal, contribution and rate not negative, the
  GrowthProjection copy is non-decreasing in the years, across zero as well. The
  RetirementCalculator copy returns the principal plus twelve contributions at and below
  zero years; it is non-decreasing from \<open>y1\<close> to \<open>y2\<close> when there is no contribution, when
  both lie on one side of zero, or when \<open>y2\<close> is at least one year.
\<close>

theorem calculateFutureValue_mono_years:
  assumes "0 \<le> p" "0 \<le> m" "0 \<le> r" "y1 \<le> y2"
  shows "calculateFutureValue_GP p m r y1 \<le> calculateFutureValue_GP p m r y2
       \<and> (m = 0 \<or> 0 < y1 \<or> y2 \<le> 0 \<or> 1 \<le> y2 \<longrightarrow>
            calculateFutureValue p m r y1 \<le> calculateFutureValue p m r y2)"
proof (intro conjI impI)
  show "calculateFutureValue_GP p m r y1 \<le> calculateFutureValue_GP p m r y2"
  proof (cases "0 < y1")
    case True
    with assms show ?thesis
      by (simp add: calculateFutureValue_GP_closedForm closedForm_mono)
  next
    case y1: False
    show ?thesis
    proof (cases "0 < y2")
      case True
      have "p = closedForm p m r 0"
        using assms by (simp add: closedForm_0)
      also have "\<dots> \<le> closedForm p m r y2"
        using assms True by (intro closedForm_mono) auto
      finally show ?thesis using y1 True assms
        by (simp add: calculateFutureValue_GP_closedForm) (simp add: calculateFutureValue_GP_def)
    next
      case False
      with y1 show ?thesis by (simp add: calculateFutureValue_GP_def)
    qed
  qed
next
  assume c: "m = 0 \<or> 0 < y1 \<or> y2 \<le> 0 \<or> 1 \<le> y2"
  show "calculateFutureValue p m r y1 \<le> calculateFutureValue p m r y2"
  proof (cases "0 < y1")
    case True
    with assms show ?thesis
      by (simp add: calculateFutureValue_closedForm closedForm_mono)
  next
    case y1: False
    show ?thesis
    proof (cases "0 < y2")
      case False
      with y1 show ?thesis by (simp add: calculateFutureValue_def)
    next
      case True
      from c y1 True consider "m = 0" | "1 \<le> y2" by fastforce
      then have "p + m * 12 \<le> closedForm p m r y2"
      proof cases
        case 1
        have "p = closedForm p m r 0"
          using assms by (simp add: closedForm_0)
        also have "\<dots> \<le> closedForm p m r y2"
          using assms True by (intro closedForm_mono) auto
        finally show ?thesis using 1 by simp
      next
        case 2
        have "p + m * 12 \<le> closedForm p m r 1"
          using assms by (intro closedForm_1)
        also have "\<dots> \<le> closedForm p m r y2"
          using assms 2 by (intro closedForm_mono) auto
        finally show ?thesis .
      qed
      then show ?thesis using y1 True assms
        by (simp add: calculateFutureValue_closedForm) (simp add: calculateFutureValue_def)
    qed
  qed
qed

theorem calculateFutureValue_mono_years_witness:
  "(0::real) \<le> 1000 \<and> (0::real) \<le> 100 \<and> (0::real) \<le> 5 / 100 \<and> (0::real) \<le> 3
   \<and> calculateFutureValue_GP 1000 100 (5 / 100) 0 \<le> calculateFutureValue_GP 1000 100 (5 / 100) 3
   \<and> calculateFutureValue 1000 100 (5 / 100) 0 \<le> calculateFutureValue 1000 100 (5 / 100) 3"
  using calculateFutureValue_mono_years [of 1000 100 "5 / 100" 0 3] by simp

text \<open>
  C4 as stated fails for the RetirementCalculator copy across zero years: with no
  principal, one unit a month and rate zero, zero years give 12 and half a year gives 6.
\<close>

theorem calculateFutureValue_mono_years_counterexample:
  "(0::real) \<le> 0 \<and> (0::real) \<le> 1 \<and> (0::real) \<le> 1 / 2
   \<and> calculateFutureValue 0 1 0 0 = 12 \<and> calculateFutureValue 0 1 0 (1 / 2) = 6
   \<and> \<not> calculateFutureValue 0 1 0 0 \<le> calculateFutureValue 0 1 0 (1 / 2)"
  by (simp add: calculateFutureValue_def Let_def)

text \<open>
  C5, as the code has it. At zero years the GrowthProjection copy returns exactly the
  principal; the RetirementCalculator copy returns the principal plus twelve monthly
  contributions, which is the principal exactly when the contribution is zero.
\<close>

theorem calculateFutureValue_zero_years:
  "calculateFutureValue_GP p m r 0 = p
   \<and> calculateFutureValue p m r 0 = p + m * 12
   \<and> (calculateFutureValue p m r 0 = p) = (m = 0)"
  by (simp add: calculateFutureValue_def calculateFutureValue_GP_def)

text \<open>
  C5 as stated fails for the RetirementCalculator copy: principal 1000 with 100 a month
  at 5 percent gives 2200 at zero years.
\<close>

theorem calculateFutureValue_zero_years_counterexample:
  "(0::real) \<le> 1000 \<and> (0::real) \<le> 100 \<and> (0::real) \<le> 5 / 100
   \<and> calculateFutureValue 1000 100 (5 / 100) 0 = 2200
   \<and> calculateFutureValue 1000 100 (5 / 100) 0 \<noteq> 1000"
  by (simp add: calculateFutureValue_def)

text \<open>
  C6. The two copies of the projector agree for every input with years above zero; at
  and below zero years the GrowthProjection copy returns the principal and the
  RetirementCalculator copy the principal plus twelve monthly contributions.
\<close>

theorem calculateFutureValue_copies:
  "(0 < years \<longrightarrow> calculateFutureValue p m r years = calculateFutureValue_GP p m r years)
   \<and> (years \<le> 0 \<longrightarrow>
        calculateFutureValue_GP p m r years = p
        \<and> calculateFutureValue p m r years = p + m * 12)"
  by (simp add: calculateFutureValue_def calculateFutureValue_GP_def)

theorem calculateFutureValue_copies_witness:
  "calculateFutureValue 1000 100 (5 / 100) 2 = calculateFutureValue_GP 1000 100 (5 / 100) 2
   \<and> calculateFutureValue_GP 1000 100 (5 / 100) 0 = 1000
   \<and> calculateFutureValue 1000 100 (5 / 100) 0 = 2200"
  using calculateFutureValue_copies [of 2 1000 100 "5 / 100"]
    calculateFutureValue_copies [of 0 1000 100 "5 / 100"]
  by simp

section \<open>The loop of the yearly simulation\<close>

lemma loop_unfold:
  "y \<le> totalYears d \<Longrightarrow> simulateYearly_body d y bs bi = (row, bs', bi') \<Longrightarrow>
     simulateYearly_loop d y bs bi rows = simulateYearly_loop d (y + 1) bs' bi' (rows @ [row])"
  by (subst simulateYearly_loop.simps) simp

lemma loop_done:
  "\<not> y \<le> totalYears d \<Longrightarrow> simulateYearly_loop d y bs bi rows = rows"
  by (subst simulateYearly_loop.simps) simp

subsection \<open>What one pass of the body produces\<close>

lemma body_year: "year (fst (simulateYearly_body d y bs bi)) = y"
  by (simp add: simulateYearly_body_def Let_def split: prod.splits)

lemma body_salaryBasis: "salaryBasis (fst (simulateYearly_body d y bs bi)) = bs + bi"
  by (simp add: simulateYearly_body_def Let_def split: prod.splits)

lemma body_balance:
  "simulateYearly_body d y bs bi = (row, bs', bi') \<Longrightarrow> balance row = bs' + bi'"
  by (auto simp add: simulateYearly_body_def Let_def split: prod.splits)

lemma body_pre:
  "y \<le> yearsToRetirement d \<Longrightarrow> simulateYearly_body d y bs bi = (row, bs', bi') \<Longrightarrow>
     payout row = 0 \<and> retirementIncome row = 0
     \<and> annualContribution row = annualContribSavings d + annualContribInvestment d
     \<and> bs' = (bs + annualContribSavings d) * (1 + savingsGrowthRate d)
     \<and> bi' = (bi + annualContribInvestment d) * (1 + investmentGrowthRate d)"
  by (auto simp add: simulateYearly_body_def preRetirement_def Let_def split: prod.splits)

lemma body_post:
  "yearsToRetirement d < y \<Longrightarrow> simulateYearly_body d y bs bi = (row, bs', bi') \<Longrightarrow>
     payout row = min (bs + bi) (annualWithdrawal d)
     \<and> retirementIncome row = annualWithdrawal d
     \<and> annualContribution row = 0"
  by (auto simp add: simulateYearly_body_def postRetirement_def Let_def split: prod.splits)

text \<open>Neither branch turns balances that are not negative into a negative one.\<close>

lemma body_nonneg:
  assumes "0 \<le> bs" "0 \<le> bi" "0 \<le> annualContribSavings d" "0 \<le> annualContribInvestment d"
    "0 \<le> savingsGrowthRate d" "0 \<le> investmentGrowthRate d"
    "simulateYearly_body d y bs bi = (row, bs', bi')"
  shows "0 \<le> bs' \<and> 0 \<le> bi'"
proof (cases "y \<le> yearsToRetirement d")
  case True
  with assms show ?thesis
    by (auto simp add: simulateYearly_body_def preRetirement_def Let_def split: prod.splits)
next
  case False
  define st where "st = bs + bi"
  define ratio where "ratio = (if st > 0 then bs / st else 1 / 2)"
  have r: "0 \<le> ratio \<and> 0 \<le> 1 - ratio"
    using assms(1,2) by (auto simp add: ratio_def st_def field_simps)
  have t: "0 \<le> max 0 (st - min st (annualWithdrawal d))"
    by simp
  have "bs' = max 0 (st - min st (annualWithdrawal d)) * ratio * (1 + savingsGrowthRate d)"
    "bi' = max 0 (st - min st (annualWithdrawal d)) * (1 - ratio) * (1 + investmentGrowthRate d)"
    using False assms(7)
    by (auto simp add: simulateYearly_body_def postRetirement_def Let_def st_def ratio_def
        split: prod.splits)
  then show ?thesis using r t assms(5,6) by (simp add: mult_nonneg_nonneg)
qed

subsection \<open>Invariants of the loop\<close>

text \<open>
  A property of the two balances kept by every pass, and a property of rows that every
  pass establishes for the row it pushes, hold of the final balances and of every row.
\<close>

lemma loop_rows:
  assumes "I y bs bi"
    and "\<forall>r \<in> set rows. P r"
    and "\<And>y bs bi row bs' bi'. I y bs bi \<Longrightarrow> y \<le> totalYears d \<Longrightarrow>
       simulateYearly_body d y bs bi = (row, bs', bi') \<Longrightarrow> I (y + 1) bs' bi' \<and> P row"
  shows "\<forall>r \<in> set (simulateYearly_loop d y bs bi rows). P r"
  using assms
proof (induction d y bs bi rows rule: simulateYearly_loop.induct)
  case (1 d y bs bi rows)
  show ?case
  proof (cases "y \<le> totalYears d")
    case False
    with "1.prems"(2) show ?thesis by (simp add: loop_done)
  next
    case True
    obtain row bs' bi' where b: "simulateYearly_body d y bs bi = (row, bs', bi')"
      by (cases "simulateYearly_body d y bs bi") auto
    from "1.prems"(3) [OF "1.prems"(1) True b] have i: "I (y + 1) bs' bi'" and p: "P row"
      by auto
    from p "1.prems"(2) have "\<forall>r \<in> set (rows @ [row]). P r"
      by simp
    then have "\<forall>r \<in> set (simulateYearly_loop d (y + 1) bs' bi' (rows @ [row])). P r"
      using "1.IH" [OF True b [symmetric] refl i] "1.prems"(3) by blast
    then show ?thesis by (simp add: loop_unfold [OF True b])
  qed
qed

lemma loop_old:
  "n < length rows \<Longrightarrow> simulateYearly_loop d y bs bi rows ! n = rows ! n"
proof (induction d y bs bi rows rule: simulateYearly_loop.induct)
  case (1 d y bs bi rows)
  show ?case
  proof (cases "y \<le> totalYears d")
    case False
    then show ?thesis by (simp add: loop_done)
  next
    case True
    obtain row bs' bi' where b: "simulateYearly_body d y bs bi = (row, bs', bi')"
      by (cases "simulateYearly_body d y bs bi") auto
    have "simulateYearly_loop d (y + 1) bs' bi' (rows @ [row]) ! n = (rows @ [row]) ! n"
      using "1.IH" [OF True b [symmetric] refl] "1.prems" by simp
    with "1.prems" show ?thesis by (simp add: loop_unfold [OF True b] nth_append)
  qed
qed

lemma loop_first:
  assumes "y \<le> totalYears d"
  shows "simulateYearly_loop d y bs bi rows ! length rows = fst (simulateYearly_body d y bs bi)"
proof -
  obtain row bs' bi' where b: "simulateYearly_body d y bs bi = (row, bs', bi')"
    by (cases "simulateYearly_body d y bs bi") auto
  have "simulateYearly_loop d y bs bi rows ! length rows
      = simulateYearly_loop d (y + 1) bs' bi' (rows @ [row]) ! length rows"
    by (simp add: loop_unfold [OF assms b])
  also have "\<dots> = (rows @ [row]) ! length rows"
    by (rule loop_old) simp
  finally show ?thesis using b by simp
qed

text \<open>The rows pushed from \<open>y\<close> on carry the year offsets \<open>y, y + 1, \<dots>, totalYears\<close>.\<close>

lemma loop_years:
  "\<exists>news. simulateYearly_loop d y bs bi rows = rows @ news
     \<and> map year news = [y..totalYears d]"
proof (induction d y bs bi rows rule: simulateYearly_loop.induct)
  case (1 d y bs bi rows)
  show ?case
  proof (cases "y \<le> totalYears d")
    case False
    then show ?thesis by (simp add: loop_done)
  next
    case True
    obtain row bs' bi' where b: "simulateYearly_body d y bs bi = (row, bs', bi')"
      by (cases "simulateYearly_body d y bs bi") auto
    from "1.IH" [OF True b [symmetric] refl] obtain news where
      n: "simulateYearly_loop d (y + 1) bs' bi' (rows @ [row]) = (rows @ [row]) @ news"
         "map year news = [y + 1..totalYears d]"
      by blast
    have "year row = y"
      using body_year [of d y bs bi] b by simp
    then have "map year (row # news) = [y..totalYears d]"
      using n(2) True by (simp add: upto_rec1)
    moreover have "simulateYearly_loop d y bs bi rows = rows @ (row # news)"
      using n(1) by (simp add: loop_unfold [OF True b])
    ultimately show ?thesis by blast
  qed
qed

subsection \<open>The series of \<open>simulateYearly\<close>\<close>

lemma simulateYearly_years: "map year (simulateYearly d) = [0..endAge - currentAge d]"
  using loop_years [of d 0 "totalSavings d"
      "totalInvestments d + total401k d + totalRothIRA d" "[]"]
  by (auto simp add: simulateYearly_def totalYears_def)

lemma simulateYearly_length: "length (simulateYearly d) = nat (endAge - currentAge d + 1)"
  using arg_cong [OF simulateYearly_years [of d], of length] by simp

lemma row_in_set:
  "int n \<le> endAge - currentAge d \<Longrightarrow> simulateYearly d ! n \<in> set (simulateYearly d)"
  by (rule nth_mem) (simp add: simulateYearly_length)

lemma simulateYearly_rows:
  assumes "I 0 (totalSavings d) (totalInvestments d + total401k d + totalRothIRA d)"
    and "\<And>y bs bi row bs' bi'. I y bs bi \<Longrightarrow> y \<le> totalYears d \<Longrightarrow>
       simulateYearly_body d y bs bi = (row, bs', bi') \<Longrightarrow> I (y + 1) bs' bi' \<and> P row"
  shows "\<forall>r \<in> set (simulateYearly d). P r"
  unfolding simulateYearly_def
  by (rule loop_rows [where I = I, OF assms(1) _ assms(2)]) simp_all

lemma simulateYearly_row0:
  "currentAge d \<le> 100 \<Longrightarrow>
     simulateYearly d ! 0 =
       fst (simulateYearly_body d 0 (totalSavings d)
              (totalInvestments d + total401k d + totalRothIRA d))"
  unfolding simulateYearly_def using loop_first [of 0 d _ _ "[]"]
  by (simp add: totalYears_def endAge_def)

lemma simulateYearly_row1:
  assumes "currentAge d \<le> 99"
    and b: "simulateYearly_body d 0 (totalSavings d)
              (totalInvestments d + total401k d + totalRothIRA d) = (row, bs', bi')"
  shows "simulateYearly d ! 1 = fst (simulateYearly_body d 1 bs' bi')"
proof -
  have t: "0 \<le> totalYears d" "0 + 1 \<le> totalYears d"
    using assms(1) by (simp_all add: totalYears_def endAge_def)
  have "simulateYearly d = simulateYearly_loop d (0 + 1) bs' bi' ([] @ [row])"
    unfolding simulateYearly_def by (rule loop_unfold [OF t(1) b])
  moreover have "simulateYearly_loop d (0 + 1) bs' bi' ([] @ [row]) ! length ([] @ [row])
      = fst (simulateYearly_body d (0 + 1) bs' bi')"
    by (rule loop_first [OF t(2)])
  ultimately show ?thesis by simp
qed

text \<open>Every row past the retirement year, whatever the balances it started from.\<close>

lemma decumulation_rows:
  "\<forall>row \<in> set (simulateYearly d). yearsToRetirement d < year row \<longrightarrow>
      payout row = min (salaryBasis row) (annualWithdrawal d)
      \<and> retirementIncome row = annualWithdrawal d \<and> annualContribution row = 0"
proof (rule simulateYearly_rows [where I = "\<lambda>y bs bi. True"])
  show True ..
next
  fix y bs bi row bs' bi'
  assume b: "simulateYearly_body d y bs bi = (row, bs', bi')"
  have y: "year row = y" and s: "salaryBasis row = bs + bi"
    using body_year [of d y bs bi] body_salaryBasis [of d y bs bi] b by simp_all
  show "True \<and> (yearsToRetirement d < year row \<longrightarrow>
      payout row = min (salaryBasis row) (annualWithdrawal d)
      \<and> retirementIncome row = annualWithdrawal d \<and> annualContribution row = 0)"
    using body_post [OF _ b] y s by simp
qed

subsection \<open>The concrete states, row by row\<close>

lemmas scenario_simps =
  sumOfType_def totalSavings_def totalInvestments_def total401k_def totalRothIRA_def
  monthlyContributionsSavings_def monthlyContributionsInvestment_def
  monthlyContributions401k_def monthlyContributionsRothIRA_def
  yearsToRetirement_def investmentGrowthRate_def savingsGrowthRate_def
  projectedInvestmentValue_def projectedSavings_def projectedTotal_def
  annualContribSavings_def annualContribInvestment_def annualWithdrawal_def
  calculateFutureValue_def simulateYearly_body_def preRetirement_def postRetirement_def

lemma scenarioC_annualWithdrawal: "annualWithdrawal scenarioC = 88"
  by (simp add: scenarioC_def scenario_simps)

lemma scenarioLate_annualWithdrawal: "annualWithdrawal scenarioLate = 968"
  by (simp add: scenarioLate_def scenario_simps)

lemma scenarioC_row0:
  "simulateYearly scenarioC ! 0 = fst (simulateYearly_body scenarioC 0 1000 0)"
  by (subst simulateYearly_row0) (simp_all add: scenarioC_def scenario_simps)

lemma scenarioC_row1:
  "simulateYearly scenarioC ! 1 = fst (simulateYearly_body scenarioC 1 2244 0)"
proof -
  have "simulateYearly_body scenarioC 0 (totalSavings scenarioC)
          (totalInvestments scenarioC + total401k scenarioC + totalRothIRA scenarioC)
        = (fst (simulateYearly_body scenarioC 0 1000 0), 2244, 0)"
    by (simp add: scenarioC_def scenario_simps Let_def)
  then show ?thesis
    by (rule simulateYearly_row1 [rotated]) (simp add: scenarioC_def)
qed

lemma scenarioLate_row0:
  "simulateYearly scenarioLate ! 0 = fst (simulateYearly_body scenarioLate 0 100 0)"
  by (subst simulateYearly_row0) (simp_all add: scenarioLate_def scenario_simps)

lemma scenarioA_row0:
  "simulateYearly scenarioA ! 0 = fst (simulateYearly_body scenarioA 0 10000 0)"
  by (subst simulateYearly_row0) (simp_all add: scenarioA_def scenario_simps)

lemma scenarioA_row1:
  "simulateYearly scenarioA ! 1 = fst (simulateYearly_body scenarioA 1 11424 0)"
proof -
  have "simulateYearly_body scenarioA 0 (totalSavings scenarioA)
          (totalInvestments scenarioA + total401k scenarioA + totalRothIRA scenarioA)
        = (fst (simulateYearly_body scenarioA 0 10000 0), 11424, 0)"
    by (simp add: scenarioA_def scenario_simps Let_def)
  then show ?thesis
    by (rule simulateYearly_row1 [rotated]) (simp add: scenarioA_def)
qed

section \<open>The withdrawal\<close>

text \<open>
  What a pass past the retirement year does to the two balances: the clamped withdrawal
  leaves the combined total, the rest is split in the proportion held before and grown.
\<close>

lemma body_post_step:
  assumes "yearsToRetirement d < y"
  shows "snd (simulateYearly_body d y bs bi) =
     ((bs + bi - min (bs + bi) (annualWithdrawal d))
        * (if bs + bi > 0 then bs / (bs + bi) else 1 / 2) * (1 + savingsGrowthRate d),
      (bs + bi - min (bs + bi) (annualWithdrawal d))
        * (1 - (if bs + bi > 0 then bs / (bs + bi) else 1 / 2)) * (1 + investmentGrowthRate d))"
proof -
  have "max 0 (bs + bi - min (bs + bi) (annualWithdrawal d))
      = bs + bi - min (bs + bi) (annualWithdrawal d)"
    by simp
  then show ?thesis
    using assms by (simp add: simulateYearly_body_def postRetirement_def Let_def)
qed

lemma body_post_interest:
  assumes "yearsToRetirement d < y" and b: "simulateYearly_body d y bs bi = (row, bs', bi')"
  shows "balance row - interestEarned row = salaryBasis row - payout row"
proof -
  define w where "w = min (bs + bi) (annualWithdrawal d)"
  define t where "t = max 0 (bs + bi - w)"
  define ratio where "ratio = (if bs + bi > 0 then bs / (bs + bi) else 1 / 2)"
  have t: "t = bs + bi - w"
    by (simp add: t_def w_def)
  have "balance row = t * ratio * (1 + savingsGrowthRate d)
                    + t * (1 - ratio) * (1 + investmentGrowthRate d)"
    "interestEarned row = (t * ratio * (1 + savingsGrowthRate d) - t * ratio)
                    + (t * (1 - ratio) * (1 + investmentGrowthRate d) - t * (1 - ratio))"
    "salaryBasis row = bs + bi" "payout row = w"
    using assms
    by (auto simp add: simulateYearly_body_def postRetirement_def Let_def t_def w_def ratio_def)
  then show ?thesis
    using t by (simp add: algebra_simps)
qed

text \<open>Each row starts from the balance the row before it ended with.\<close>

lemma loop_chain:
  "\<exists>news. simulateYearly_loop d y bs bi rows = rows @ news
     \<and> (\<forall>n. Suc n < length news \<longrightarrow> salaryBasis (news ! Suc n) = balance (news ! n))
     \<and> (news \<noteq> [] \<longrightarrow> salaryBasis (news ! 0) = bs + bi)"
proof (induction d y bs bi rows rule: simulateYearly_loop.induct)
  case (1 d y bs bi rows)
  show ?case
  proof (cases "y \<le> totalYears d")
    case False
    then show ?thesis by (simp add: loop_done)
  next
    case True
    obtain row bs' bi' where b: "simulateYearly_body d y bs bi = (row, bs', bi')"
      by (cases "simulateYearly_body d y bs bi") auto
    from "1.IH" [OF True b [symmetric] refl] obtain news where
      n: "simulateYearly_loop d (y + 1) bs' bi' (rows @ [row]) = (rows @ [row]) @ news"
         "\<forall>n. Suc n < length news \<longrightarrow> salaryBasis (news ! Suc n) = balance (news ! n)"
         "news \<noteq> [] \<longrightarrow> salaryBasis (news ! 0) = bs' + bi'"
      by blast
    have s: "salaryBasis row = bs + bi"
      using body_salaryBasis [of d y bs bi] b by simp
    have bal: "balance row = bs' + bi'"
      using b by (rule body_balance)
    have "\<forall>k. Suc k < length (row # news) \<longrightarrow>
        salaryBasis ((row # news) ! Suc k) = balance ((row # news) ! k)"
    proof (intro allI impI)
      fix k
      assume k: "Suc k < length (row # news)"
      show "salaryBasis ((row # news) ! Suc k) = balance ((row # news) ! k)"
      proof (cases k)
        case 0
        with k n(3) bal show ?thesis by auto
      next
        case (Suc j)
        with k n(2) show ?thesis by simp
      qed
    qed
    moreover have "simulateYearly_loop d y bs bi rows = rows @ (row # news)"
      using n(1) by (simp add: loop_unfold [OF True b])
    ultimately show ?thesis using s by auto
  qed
qed

lemma simulateYearly_chain:
  "Suc n < length (simulateYearly d) \<Longrightarrow>
     salaryBasis (simulateYearly d ! Suc n) = balance (simulateYearly d ! n)"
  using loop_chain [of d 0 "totalSavings d"
      "totalInvestments d + total401k d + totalRothIRA d" "[]"]
  by (auto simp add: simulateYearly_def)

lemma decumulation_balance:
  "\<forall>row \<in> set (simulateYearly d). yearsToRetirement d < year row \<longrightarrow>
      balance row - interestEarned row = salaryBasis row - payout row"
proof (rule simulateYearly_rows [where I = "\<lambda>y bs bi. True"])
  show True ..
next
  fix y bs bi row bs' bi'
  assume b: "simulateYearly_body d y bs bi = (row, bs', bi')"
  have y: "year row = y"
    using body_year [of d y bs bi] b by simp
  show "True \<and> (yearsToRetirement d < year row \<longrightarrow>
      balance row - interestEarned row = salaryBasis row - payout row)"
    using body_post_interest [OF _ b] y by simp
qed

lemma simulateYearly_row2:
  assumes "currentAge d \<le> 98"
    and b0: "simulateYearly_body d 0 (totalSavings d)
              (totalInvestments d + total401k d + totalRothIRA d) = (row0, bs1, bi1)"
    and b1: "simulateYearly_body d 1 bs1 bi1 = (row1, bs2, bi2)"
  shows "simulateYearly d ! 2 = fst (simulateYearly_body d 2 bs2 bi2)"
proof -
  have t: "0 \<le> totalYears d" "0 + 1 \<le> totalYears d" "0 + 1 + 1 \<le> totalYears d"
    using assms(1) by (simp_all add: totalYears_def endAge_def)
  have "simulateYearly d = simulateYearly_loop d (0 + 1) bs1 bi1 ([] @ [row0])"
    unfolding simulateYearly_def by (rule loop_unfold [OF t(1) b0])
  also have "\<dots> = simulateYearly_loop d (0 + 1 + 1) bs2 bi2 (([] @ [row0]) @ [row1])"
    using b1 by (intro loop_unfold [OF t(2)]) simp
  finally have "simulateYearly d = simulateYearly_loop d (0 + 1 + 1) bs2 bi2 (([] @ [row0]) @ [row1])" .
  moreover have "simulateYearly_loop d (0 + 1 + 1) bs2 bi2 (([] @ [row0]) @ [row1])
        ! length (([] @ [row0]) @ [row1])
      = fst (simulateYearly_body d (0 + 1 + 1) bs2 bi2)"
    by (rule loop_first [OF t(3)])
  ultimately show ?thesis by (simp add: numeral_2_eq_2)
qed

lemma scenarioNear_projectedTotal:
  "projectedTotal scenarioNear = 1120 + 100 * ((101 / 100) ^ 12 - 1) / (1 / 100)"
  by (simp add: scenarioNear_def scenario_simps Let_def Math_pow_def)

lemma scenarioNear_row2:
  "simulateYearly scenarioNear ! 2 = fst (simulateYearly_body scenarioNear 2 0 (410368 / 100))"
proof -
  have "simulateYearly_body scenarioNear 0 (totalSavings scenarioNear)
          (totalInvestments scenarioNear + total401k scenarioNear + totalRothIRA scenarioNear)
        = (fst (simulateYearly_body scenarioNear 0 0 1000), 0, 2464)"
    by (simp add: scenarioNear_def scenario_simps Let_def)
  moreover have "simulateYearly_body scenarioNear 1 0 2464
        = (fst (simulateYearly_body scenarioNear 1 0 2464), 0, 410368 / 100)"
    by (simp add: scenarioNear_def scenario_simps Let_def)
  ultimately show ?thesis
    by (rule simulateYearly_row2 [rotated]) (simp add: scenarioNear_def)
qed

text \<open>The chart's step past retirement, for the props built from a state.\<close>

lemma chart_post_total:
  assumes "savings prev = Some psav" "investments prev = Some pinv" "total prev = Some ptot" "ptot \<noteq> 0"
  shows "total (postRetirementPoint (growthProjectionProps d view) y prev) =
     Some (Math_round
       (max 0 (ptot - projectedTotal d * withdrawalRate d / 100)
          * (1 + (psav / ptot * (savingsRate d / 100) + pinv / ptot * (investmentRate d / 100)))))"
  using assms by (simp add: postRetirementPoint_def growthProjectionProps_def Let_def)

text \<open>
  C2. The annual withdrawal of the yearly simulation is the projected total at retirement
  times the withdrawal rate over 100, the projected total being the sum of the two
  closed-form values at \<open>retirementAge - currentAge\<close> years. In every row past the
  retirement year the payout is the smaller of the row's starting total and this one
  amount, the reported income is this amount, and the payout is exactly what leaves the
  balance before growth (the balance less the interest is the starting total less the
  payout). Each row starts from the balance the previous row ended with. The pass itself,
  from any two balances, takes the smaller of their sum and this amount, and carries on
  the rest, split and grown; the chart's step subtracts the same amount from the previous
  total. The amount depends on the state only, never on the row or its balance.
\<close>

theorem annualWithdrawal_fixed:
  "annualWithdrawal d = projectedTotal d * withdrawalRate d / 100
   \<and> projectedTotal d =
       calculateFutureValue (totalInvestments d + total401k d + totalRothIRA d)
         (monthlyContributionsInvestment d + monthlyContributions401k d
            + monthlyContributionsRothIRA d)
         (investmentRate d / 100) (of_int (retirementAge d - currentAge d))
       + calculateFutureValue (totalSavings d) (monthlyContributionsSavings d)
           (savingsRate d / 100) (of_int (retirementAge d - currentAge d))
   \<and> (\<forall>row \<in> set (simulateYearly d). yearsToRetirement d < year row \<longrightarrow>
         payout row = min (salaryBasis row) (projectedTotal d * withdrawalRate d / 100)
         \<and> retirementIncome row = projectedTotal d * withdrawalRate d / 100
         \<and> balance row - interestEarned row = salaryBasis row - payout row)
   \<and> (\<forall>n. Suc n < length (simulateYearly d) \<longrightarrow>
         salaryBasis (simulateYearly d ! Suc n) = balance (simulateYearly d ! n))
   \<and> (\<forall>y bs bi. yearsToRetirement d < y \<longrightarrow>
         snd (simulateYearly_body d y bs bi) =
           ((bs + bi - min (bs + bi) (projectedTotal d * withdrawalRate d / 100))
              * (if bs + bi > 0 then bs / (bs + bi) else 1 / 2) * (1 + savingsRate d / 100),
            (bs + bi - min (bs + bi) (projectedTotal d * withdrawalRate d / 100))
              * (1 - (if bs + bi > 0 then bs / (bs + bi) else 1 / 2))
              * (1 + investmentRate d / 100)))
   \<and> (\<forall>view y prev psav pinv ptot.
         savings prev = Some psav \<and> investments prev = Some pinv \<and> total prev = Some ptot \<and> ptot \<noteq> 0 \<longrightarrow>
         total (postRetirementPoint (growthProjectionProps d view) y prev) =
           Some (Math_round
             (max 0 (ptot - projectedTotal d * withdrawalRate d / 100)
                * (1 + (psav / ptot * (savingsRate d / 100) + pinv / ptot * (investmentRate d / 100))))))"
proof (intro conjI)
  show aw: "annualWithdrawal d = projectedTotal d * withdrawalRate d / 100"
    by (simp add: annualWithdrawal_def)
  show "projectedTotal d =
       calculateFutureValue (totalInvestments d + total401k d + totalRothIRA d)
         (monthlyContributionsInvestment d + monthlyContributions401k d
            + monthlyContributionsRothIRA d)
         (investmentRate d / 100) (of_int (retirementAge d - currentAge d))
       + calculateFutureValue (totalSavings d) (monthlyContributionsSavings d)
           (savingsRate d / 100) (of_int (retirementAge d - currentAge d))"
    by (simp add: projectedTotal_def projectedInvestmentValue_def projectedSavings_def
        investmentGrowthRate_def savingsGrowthRate_def yearsToRetirement_def)
  show "\<forall>row \<in> set (simulateYearly d). yearsToRetirement d < year row \<longrightarrow>
         payout row = min (salaryBasis row) (projectedTotal d * withdrawalRate d / 100)
         \<and> retirementIncome row = projectedTotal d * withdrawalRate d / 100
         \<and> balance row - interestEarned row = salaryBasis row - payout row"
    using decumulation_rows [of d] decumulation_balance [of d] unfolding aw by blast
  show "\<forall>n. Suc n < length (simulateYearly d) \<longrightarrow>
         salaryBasis (simulateYearly d ! Suc n) = balance (simulateYearly d ! n)"
    by (simp add: simulateYearly_chain)
  show "\<forall>y bs bi. yearsToRetirement d < y \<longrightarrow>
         snd (simulateYearly_body d y bs bi) =
           ((bs + bi - min (bs + bi) (projectedTotal d * withdrawalRate d / 100))
              * (if bs + bi > 0 then bs / (bs + bi) else 1 / 2) * (1 + savingsRate d / 100),
            (bs + bi - min (bs + bi) (projectedTotal d * withdrawalRate d / 100))
              * (1 - (if bs + bi > 0 then bs / (bs + bi) else 1 / 2))
              * (1 + investmentRate d / 100))"
    using body_post_step [of d] unfolding aw savingsGrowthRate_def investmentGrowthRate_def
    by blast
  show "\<forall>view y prev psav pinv ptot.
         savings prev = Some psav \<and> investments prev = Some pinv \<and> total prev = Some ptot \<and> ptot \<noteq> 0 \<longrightarrow>
         total (postRetirementPoint (growthProjectionProps d view) y prev) =
           Some (Math_round
             (max 0 (ptot - projectedTotal d * withdrawalRate d / 100)
                * (1 + (psav / ptot * (savingsRate d / 100) + pinv / ptot * (investmentRate d / 100)))))"
    using chart_post_total by blast
qed

theorem annualWithdrawal_fixed_witness:
  "yearsToRetirement scenarioNear = 1
   \<and> year (simulateYearly scenarioNear ! 2) = 2
   \<and> projectedTotal scenarioNear = 1120 + 100 * ((101 / 100) ^ 12 - 1) / (1 / 100)
   \<and> salaryBasis (simulateYearly scenarioNear ! 2) = 410368 / 100
   \<and> salaryBasis (simulateYearly scenarioNear ! 2) = balance (simulateYearly scenarioNear ! 1)
   \<and> payout (simulateYearly scenarioNear ! 2) = projectedTotal scenarioNear * 4 / 100
   \<and> retirementIncome (simulateYearly scenarioNear ! 2) = projectedTotal scenarioNear * 4 / 100
   \<and> balance (simulateYearly scenarioNear ! 2) - interestEarned (simulateYearly scenarioNear ! 2)
       = 410368 / 100 - projectedTotal scenarioNear * 4 / 100
   \<and> snd (simulateYearly_body scenarioNear 2 0 (410368 / 100))
       = (0, (410368 / 100 - projectedTotal scenarioNear * 4 / 100) * (1 + 12 / 100))
   \<and> total (postRetirementPoint (growthProjectionProps scenarioNear 65) 2
        \<lparr>ProjectionPoint.year = 1, age = 65, savings = Some 0, investments = Some 2388,
          total = Some 2388\<rparr>)
       = Some (Math_round ((2388 - projectedTotal scenarioNear * 4 / 100) * (1 + 12 / 100)))"
proof -
  let ?r = "simulateYearly scenarioNear ! 2"
  have ytr: "yearsToRetirement scenarioNear = 1"
    by (simp add: scenarioNear_def yearsToRetirement_def)
  have len: "length (simulateYearly scenarioNear) = 37"
    by (simp add: simulateYearly_length scenarioNear_def endAge_def)
  have m: "?r \<in> set (simulateYearly scenarioNear)"
    by (rule row_in_set) (simp add: scenarioNear_def endAge_def)
  have y: "year ?r = 2"
    unfolding scenarioNear_row2 body_year by simp
  have s: "salaryBasis ?r = 410368 / 100"
    unfolding scenarioNear_row2 body_salaryBasis by simp
  have w: "withdrawalRate scenarioNear = 4" "savingsRate scenarioNear = 2"
    "investmentRate scenarioNear = 12"
    by (simp_all add: scenarioNear_def)
  have small: "projectedTotal scenarioNear * 4 / 100 \<le> 2388"
    "projectedTotal scenarioNear * 4 / 100 \<le> 410368 / 100"
    unfolding scenarioNear_projectedTotal by (simp_all add: power_divide)
  note t = annualWithdrawal_fixed [of scenarioNear]
  note t3 = t [THEN conjunct2, THEN conjunct2, THEN conjunct1, rule_format]
  note t4 = t [THEN conjunct2, THEN conjunct2, THEN conjunct2, THEN conjunct1, rule_format]
  note t5 = t [THEN conjunct2, THEN conjunct2, THEN conjunct2, THEN conjunct2, THEN conjunct1,
      rule_format]
  note t6 = t [THEN conjunct2, THEN conjunct2, THEN conjunct2, THEN conjunct2, THEN conjunct2,
      rule_format]
  have past: "yearsToRetirement scenarioNear < year ?r"
    using y ytr by simp
  note rows = t3 [OF m past]
  have "Suc 1 < length (simulateYearly scenarioNear)"
    using len by simp
  note chain = t4 [OF this]
  have "yearsToRetirement scenarioNear < 2"
    using ytr by simp
  note step = t5 [OF this, of 0 "410368 / 100"]
  have "savings \<lparr>ProjectionPoint.year = 1, age = 65, savings = Some 0,
            investments = Some 2388, total = Some 2388\<rparr> = Some 0
      \<and> investments \<lparr>ProjectionPoint.year = 1, age = 65, savings = Some 0,
            investments = Some 2388, total = Some 2388\<rparr> = Some 2388
      \<and> total \<lparr>ProjectionPoint.year = 1, age = 65, savings = Some 0,
            investments = Some 2388, total = Some 2388\<rparr> = Some 2388
      \<and> (2388::real) \<noteq> 0"
    by simp
  note chart = t6 [OF this, of 65 2]
  have c2: "salaryBasis ?r = balance (simulateYearly scenarioNear ! 1)"
    using chain by (simp add: numeral_2_eq_2)
  have p: "payout ?r = projectedTotal scenarioNear * 4 / 100"
    using rows small(2) unfolding w s by simp
  have i: "retirementIncome ?r = projectedTotal scenarioNear * 4 / 100"
    using rows unfolding w by simp
  have bal: "balance ?r - interestEarned ?r = 410368 / 100 - projectedTotal scenarioNear * 4 / 100"
    using rows unfolding s p by simp
  have st: "snd (simulateYearly_body scenarioNear 2 0 (410368 / 100))
       = (0, (410368 / 100 - projectedTotal scenarioNear * 4 / 100) * (1 + 12 / 100))"
    using step small(2) unfolding w by simp
  have ch: "total (postRetirementPoint (growthProjectionProps scenarioNear 65) 2
        \<lparr>ProjectionPoint.year = 1, age = 65, savings = Some 0, investments = Some 2388,
          total = Some 2388\<rparr>)
       = Some (Math_round ((2388 - projectedTotal scenarioNear * 4 / 100) * (1 + 12 / 100)))"
    using chart small(1) unfolding w by (simp add: max_def)
  show ?thesis
    using ytr y scenarioNear_projectedTotal s c2 p i bal st ch by blast
qed

text \<open>
  C10. In every row of \<open>simulateYearly\<close> past the retirement year the reported
  \<open>retirementIncome\<close> is the annual withdrawal as sized, the \<open>payout\<close> is that amount
  clamped to the row's starting total, so the payout never exceeds the reported income and
  is strictly below it whenever the starting total is below the annual withdrawal.
\<close>

theorem retirementIncome_unclamped:
  "\<forall>row \<in> set (simulateYearly d). yearsToRetirement d < year row \<longrightarrow>
      retirementIncome row = annualWithdrawal d
      \<and> payout row = min (salaryBasis row) (annualWithdrawal d)
      \<and> payout row \<le> retirementIncome row
      \<and> (salaryBasis row < annualWithdrawal d \<longrightarrow> payout row < retirementIncome row)"
  using decumulation_rows [of d] by auto

theorem retirementIncome_unclamped_witness:
  "yearsToRetirement scenarioLate < year (simulateYearly scenarioLate ! 0)
   \<and> salaryBasis (simulateYearly scenarioLate ! 0) < annualWithdrawal scenarioLate
   \<and> retirementIncome (simulateYearly scenarioLate ! 0) = 968
   \<and> payout (simulateYearly scenarioLate ! 0) = 100
   \<and> payout (simulateYearly scenarioLate ! 0) < retirementIncome (simulateYearly scenarioLate ! 0)"
proof -
  have m: "simulateYearly scenarioLate ! 0 \<in> set (simulateYearly scenarioLate)"
    by (rule row_in_set) (simp add: scenarioLate_def endAge_def)
  have y: "yearsToRetirement scenarioLate < year (simulateYearly scenarioLate ! 0)"
    unfolding scenarioLate_row0 body_year by (simp add: scenarioLate_def yearsToRetirement_def)
  have s: "salaryBasis (simulateYearly scenarioLate ! 0) = 100"
    unfolding scenarioLate_row0 body_salaryBasis by simp
  from retirementIncome_unclamped [of scenarioLate] m y
  have "retirementIncome (simulateYearly scenarioLate ! 0) = annualWithdrawal scenarioLate
      \<and> payout (simulateYearly scenarioLate ! 0)
          = min (salaryBasis (simulateYearly scenarioLate ! 0)) (annualWithdrawal scenarioLate)
      \<and> (salaryBasis (simulateYearly scenarioLate ! 0) < annualWithdrawal scenarioLate \<longrightarrow>
           payout (simulateYearly scenarioLate ! 0)
             < retirementIncome (simulateYearly scenarioLate ! 0))"
    by blast
  with y s show ?thesis by (simp add: scenarioLate_annualWithdrawal)
qed

section \<open>Balances are never negative\<close>

text \<open>
  C3. When the two starting balances, the two monthly contribution totals and the two
  growth rates are not negative, every row of \<open>simulateYearly\<close> has a balance that is not
  negative; the payout of a row never exceeds the total the row started from, which is
  not negative either.
\<close>

theorem balance_nonneg:
  assumes "0 \<le> totalSavings d"
    and "0 \<le> totalInvestments d + total401k d + totalRothIRA d"
    and "0 \<le> monthlyContributionsSavings d"
    and "0 \<le> monthlyContributionsInvestment d + monthlyContributions401k d
              + monthlyContributionsRothIRA d"
    and "0 \<le> savingsRate d" and "0 \<le> investmentRate d"
  shows "\<forall>row \<in> set (simulateYearly d).
           0 \<le> balance row \<and> 0 \<le> salaryBasis row \<and> payout row \<le> salaryBasis row"
proof (rule simulateYearly_rows [where I = "\<lambda>y bs bi. 0 \<le> bs \<and> 0 \<le> bi"])
  show "0 \<le> totalSavings d \<and> 0 \<le> totalInvestments d + total401k d + totalRothIRA d"
    using assms(1,2) by simp
next
  fix y bs bi row bs' bi'
  assume i: "0 \<le> bs \<and> 0 \<le> bi" and b: "simulateYearly_body d y bs bi = (row, bs', bi')"
  have c: "0 \<le> annualContribSavings d" "0 \<le> annualContribInvestment d"
    using assms(3,4) by (simp_all add: annualContribSavings_def annualContribInvestment_def)
  have g: "0 \<le> savingsGrowthRate d" "0 \<le> investmentGrowthRate d"
    using assms(5,6) by (simp_all add: savingsGrowthRate_def investmentGrowthRate_def)
  have n: "0 \<le> bs' \<and> 0 \<le> bi'"
    using i c g b by (intro body_nonneg [of bs bi d y row]) simp_all
  have s: "salaryBasis row = bs + bi"
    using body_salaryBasis [of d y bs bi] b by simp
  have p: "payout row \<le> bs + bi"
  proof (cases "y \<le> yearsToRetirement d")
    case True
    with body_pre [OF True b] i show ?thesis by simp
  next
    case False
    then have "yearsToRetirement d < y" by simp
    from body_post [OF this b] show ?thesis by simp
  qed
  show "(0 \<le> bs' \<and> 0 \<le> bi')
      \<and> (0 \<le> balance row \<and> 0 \<le> salaryBasis row \<and> payout row \<le> salaryBasis row)"
    using n s p i body_balance [OF b] by simp
qed

theorem balance_nonneg_witness:
  "(0::real) \<le> totalSavings scenarioC
   \<and> (0::real) \<le> monthlyContributionsSavings scenarioC
   \<and> (0::real) \<le> savingsRate scenarioC \<and> (0::real) \<le> investmentRate scenarioC
   \<and> salaryBasis (simulateYearly scenarioC ! 1) = 2244
   \<and> 0 \<le> balance (simulateYearly scenarioC ! 1)
   \<and> payout (simulateYearly scenarioC ! 1) \<le> 2244"
proof -
  have m: "simulateYearly scenarioC ! 1 \<in> set (simulateYearly scenarioC)"
    by (rule row_in_set) (simp add: scenarioC_def endAge_def)
  have h: "0 \<le> totalSavings scenarioC"
    "0 \<le> totalInvestments scenarioC + total401k scenarioC + totalRothIRA scenarioC"
    "0 \<le> monthlyContributionsSavings scenarioC"
    "0 \<le> monthlyContributionsInvestment scenarioC + monthlyContributions401k scenarioC
         + monthlyContributionsRothIRA scenarioC"
    "0 \<le> savingsRate scenarioC" "0 \<le> investmentRate scenarioC"
    by (simp_all add: scenarioC_def scenario_simps)
  have s: "salaryBasis (simulateYearly scenarioC ! 1) = 2244"
    unfolding scenarioC_row1 body_salaryBasis by simp
  from balance_nonneg [OF h] m
  have "0 \<le> balance (simulateYearly scenarioC ! 1)
      \<and> payout (simulateYearly scenarioC ! 1) \<le> salaryBasis (simulateYearly scenarioC ! 1)"
    by blast
  with h s show ?thesis by simp
qed

section \<open>The first rows\<close>

text \<open>
  C7, as the code has it. The loop takes the accumulation branch while
  \<open>y \<le> yearsToRetirement\<close>, and the series has \<open>101 - currentAge\<close> rows. With the
  retirement age equal to the current age (at most 100), row 0 is therefore still an
  accumulation row: nothing is paid out, the year's contributions are added and both
  balances grow. When the current age is at most 99, so that there is a row 1, row 1 is
  the first decumulation row: it pays the smaller of row 0's balance and the annual
  withdrawal and adds no contribution. Row 0 pays the smaller of the combined principal
  and the annual withdrawal, with no contribution, when the retirement age is below the
  current age.
\<close>

theorem row0_at_retirement:
  assumes "currentAge d \<le> 100"
  shows "(retirementAge d = currentAge d \<longrightarrow>
            payout (simulateYearly d ! 0) = 0
            \<and> annualContribution (simulateYearly d ! 0)
                = annualContribSavings d + annualContribInvestment d
            \<and> balance (simulateYearly d ! 0)
                = (totalSavings d + annualContribSavings d) * (1 + savingsGrowthRate d)
                  + (totalInvestments d + total401k d + totalRothIRA d
                       + annualContribInvestment d) * (1 + investmentGrowthRate d))
       \<and> (retirementAge d = currentAge d \<and> currentAge d \<le> 99 \<longrightarrow>
            payout (simulateYearly d ! 1)
                = min (balance (simulateYearly d ! 0)) (annualWithdrawal d)
            \<and> annualContribution (simulateYearly d ! 1) = 0)
       \<and> (retirementAge d < currentAge d \<longrightarrow>
            payout (simulateYearly d ! 0)
                = min (totalSavings d + totalInvestments d + total401k d + totalRothIRA d)
                    (annualWithdrawal d)
            \<and> annualContribution (simulateYearly d ! 0) = 0)
       \<and> length (simulateYearly d) = nat (101 - currentAge d)"
proof -
  let ?bs = "totalSavings d" and ?bi = "totalInvestments d + total401k d + totalRothIRA d"
  obtain row bs' bi' where b: "simulateYearly_body d 0 ?bs ?bi = (row, bs', bi')"
    by (cases "simulateYearly_body d 0 ?bs ?bi") auto
  have r0: "simulateYearly d ! 0 = row"
    using simulateYearly_row0 [OF assms] b by simp
  have bal: "balance row = bs' + bi'"
    using b by (rule body_balance)
  have eq: "retirementAge d = currentAge d \<Longrightarrow>
      payout row = 0
      \<and> annualContribution row = annualContribSavings d + annualContribInvestment d
      \<and> bs' = (?bs + annualContribSavings d) * (1 + savingsGrowthRate d)
      \<and> bi' = (?bi + annualContribInvestment d) * (1 + investmentGrowthRate d)"
    using body_pre [OF _ b] by (simp add: yearsToRetirement_def)
  have one: "retirementAge d = currentAge d \<and> currentAge d \<le> 99 \<longrightarrow>
      payout (simulateYearly d ! 1) = min (balance row) (annualWithdrawal d)
      \<and> annualContribution (simulateYearly d ! 1) = 0"
  proof
    assume h: "retirementAge d = currentAge d \<and> currentAge d \<le> 99"
    obtain row1 bs1 bi1 where b1: "simulateYearly_body d 1 bs' bi' = (row1, bs1, bi1)"
      by (cases "simulateYearly_body d 1 bs' bi'") auto
    have "simulateYearly d ! 1 = row1"
      using simulateYearly_row1 [OF _ b] h b1 by simp
    moreover have "yearsToRetirement d < 1"
      using h by (simp add: yearsToRetirement_def)
    ultimately show "payout (simulateYearly d ! 1) = min (balance row) (annualWithdrawal d)
      \<and> annualContribution (simulateYearly d ! 1) = 0"
      using body_post [OF _ b1] bal by simp
  qed
  have lt: "retirementAge d < currentAge d \<Longrightarrow>
      payout row = min (?bs + ?bi) (annualWithdrawal d) \<and> annualContribution row = 0"
    using body_post [OF _ b] by (simp add: yearsToRetirement_def add.assoc)
  have len: "length (simulateYearly d) = nat (101 - currentAge d)"
    by (simp add: simulateYearly_length endAge_def)
  show ?thesis
    unfolding r0 using eq bal one lt len by (simp add: add.assoc)
qed

theorem row0_at_retirement_witness:
  "currentAge scenarioC \<le> 100 \<and> retirementAge scenarioC = currentAge scenarioC
   \<and> payout (simulateYearly scenarioC ! 0) = 0
   \<and> annualContribution (simulateYearly scenarioC ! 0) = 1200
   \<and> balance (simulateYearly scenarioC ! 0) = 2244
   \<and> payout (simulateYearly scenarioC ! 1) = 88
   \<and> annualContribution (simulateYearly scenarioC ! 1) = 0
   \<and> retirementAge scenarioLate < currentAge scenarioLate
   \<and> payout (simulateYearly scenarioLate ! 0) = 100
   \<and> annualContribution (simulateYearly scenarioLate ! 0) = 0"
proof -
  have c: "currentAge scenarioC \<le> 100" "retirementAge scenarioC = currentAge scenarioC"
    "currentAge scenarioC \<le> 99"
    by (simp_all add: scenarioC_def)
  have l: "currentAge scenarioLate \<le> 100" "retirementAge scenarioLate < currentAge scenarioLate"
    by (simp_all add: scenarioLate_def)
  have vc: "annualContribSavings scenarioC + annualContribInvestment scenarioC = 1200"
    "(totalSavings scenarioC + annualContribSavings scenarioC) * (1 + savingsGrowthRate scenarioC)
       + (totalInvestments scenarioC + total401k scenarioC + totalRothIRA scenarioC
            + annualContribInvestment scenarioC) * (1 + investmentGrowthRate scenarioC) = 2244"
    by (simp_all add: scenarioC_def scenario_simps)
  have vl: "totalSavings scenarioLate + totalInvestments scenarioLate + total401k scenarioLate
       + totalRothIRA scenarioLate = 100"
    by (simp add: scenarioLate_def scenario_simps)
  show ?thesis
    using row0_at_retirement [OF c(1)] row0_at_retirement [OF l(1)] c l vc vl
    by (simp add: scenarioC_annualWithdrawal scenarioLate_annualWithdrawal)
qed

text \<open>
  C7 as stated fails: at equal ages, with a combined principal of 1000 and an annual
  withdrawal of 88, row 0 pays out nothing and records a contribution of 1200.
\<close>

theorem row0_at_retirement_counterexample:
  "retirementAge scenarioC = currentAge scenarioC
   \<and> 0 < annualWithdrawal scenarioC
   \<and> totalSavings scenarioC + totalInvestments scenarioC + total401k scenarioC
       + totalRothIRA scenarioC = 1000
   \<and> payout (simulateYearly scenarioC ! 0) = 0
   \<and> payout (simulateYearly scenarioC ! 0)
       \<noteq> min (totalSavings scenarioC + totalInvestments scenarioC + total401k scenarioC
                + totalRothIRA scenarioC) (annualWithdrawal scenarioC)
   \<and> annualContribution (simulateYearly scenarioC ! 0) \<noteq> 0"
proof -
  have t: "totalSavings scenarioC + totalInvestments scenarioC + total401k scenarioC
       + totalRothIRA scenarioC = 1000"
    by (simp add: scenarioC_def scenario_simps)
  have r: "payout (simulateYearly scenarioC ! 0) = 0"
    "annualContribution (simulateYearly scenarioC ! 0) = 1200"
    unfolding scenarioC_row0 by (simp_all add: scenarioC_def scenario_simps Let_def)
  show ?thesis
    using t r by (simp add: scenarioC_annualWithdrawal) (simp add: scenarioC_def)
qed

text \<open>
  C8, as the code has it. Scenario A aggregates to a savings principal of 10000 with 100
  a month, nothing invested, rates 0.02 and 0.05 and no withdrawal. The balance
  \<open>(10000 + 1200) * 1.02 = 11424\<close> is that of row 0, which already holds a year of
  contributions and growth; row 1 holds \<open>(11424 + 1200) * 1.02 = 12876.48\<close>.
\<close>

theorem scenarioA_balances:
  "totalSavings scenarioA = 10000
   \<and> totalInvestments scenarioA + total401k scenarioA + totalRothIRA scenarioA = 0
   \<and> monthlyContributionsSavings scenarioA = 100
   \<and> monthlyContributionsInvestment scenarioA + monthlyContributions401k scenarioA
       + monthlyContributionsRothIRA scenarioA = 0
   \<and> savingsGrowthRate scenarioA = 2 / 100 \<and> investmentGrowthRate scenarioA = 5 / 100
   \<and> annualWithdrawal scenarioA = 0
   \<and> balance (simulateYearly scenarioA ! 0) = 11424
   \<and> balance (simulateYearly scenarioA ! 1) = 1287648 / 100"
proof -
  have "balance (simulateYearly scenarioA ! 0) = 11424"
    unfolding scenarioA_row0 by (simp add: scenarioA_def scenario_simps Let_def)
  moreover have "balance (simulateYearly scenarioA ! 1) = 1287648 / 100"
    unfolding scenarioA_row1 by (simp add: scenarioA_def scenario_simps Let_def)
  ultimately show ?thesis
    by (simp add: scenarioA_def scenario_simps)
qed

text \<open>C8 as stated fails: the balance of row 1 is not \<open>(10000 + 1200) * 1.02\<close>.\<close>

theorem scenarioA_balances_counterexample:
  "(10000 + 1200) * (1 + 2 / 100) = (11424 :: real)
   \<and> balance (simulateYearly scenarioA ! 1) \<noteq> (10000 + 1200) * (1 + 2 / 100)"
proof -
  have "balance (simulateYearly scenarioA ! 1) = 1287648 / 100"
    unfolding scenarioA_row1 by (simp add: scenarioA_def scenario_simps Let_def)
  then show ?thesis by simp
qed

section \<open>The year offsets of the two series\<close>

lemma gp_unfold_pre:
  "y \<le> maxAge p \<Longrightarrow> y \<le> yearsToRetirement_GP p \<Longrightarrow>
   generateProjections_loop p y projections =
     generateProjections_loop p (y + 1) (projections @ [preRetirementPoint p y])"
  by (subst generateProjections_loop.simps) simp

lemma gp_unfold_post:
  "y \<le> maxAge p \<Longrightarrow> \<not> y \<le> yearsToRetirement_GP p \<Longrightarrow> projections \<noteq> [] \<Longrightarrow>
   generateProjections_loop p y projections =
     generateProjections_loop p (y + 1)
       (projections @ [postRetirementPoint p y (last projections)])"
  by (subst generateProjections_loop.simps) simp

lemma gp_throw:
  "y \<le> maxAge p \<Longrightarrow> \<not> y \<le> yearsToRetirement_GP p \<Longrightarrow>
   generateProjections_loop p y [] = Inl TypeError"
  by (subst generateProjections_loop.simps) simp

lemma gp_done:
  "\<not> y \<le> maxAge p \<Longrightarrow> generateProjections_loop p y projections = Inr projections"
  by (subst generateProjections_loop.simps) simp

lemma preRetirementPoint_year:
  "ProjectionPoint.year (preRetirementPoint p y) = y"
  "ProjectionPoint.age (preRetirementPoint p y) = GrowthProjectionProps.currentAge p + y"
  by (simp_all add: preRetirementPoint_def Let_def)

lemma postRetirementPoint_year:
  "ProjectionPoint.year (postRetirementPoint p y prev) = y"
  "ProjectionPoint.age (postRetirementPoint p y prev) = GrowthProjectionProps.currentAge p + y"
  by (simp_all add: postRetirementPoint_def Let_def split: option.splits)

text \<open>
  Once a point has been pushed, or while the accumulation branch is taken, the loop of
  the chart returns, and the points it pushes carry the offsets \<open>y, \<dots>, maxAge\<close>.
\<close>

lemma gp_loop_years:
  "projections \<noteq> [] \<or> y \<le> yearsToRetirement_GP p \<Longrightarrow>
   \<exists>news. generateProjections_loop p y projections = Inr (projections @ news)
      \<and> map ProjectionPoint.year news = [y..maxAge p]
      \<and> map ProjectionPoint.age news
          = map (\<lambda>k. GrowthProjectionProps.currentAge p + k) [y..maxAge p]"
proof (induction p y projections rule: generateProjections_loop.induct)
  case (1 p y projections)
  show ?case
  proof (cases "y \<le> maxAge p")
    case False
    then show ?thesis by (simp add: gp_done)
  next
    case True
    show ?thesis
    proof (cases "y \<le> yearsToRetirement_GP p")
      case pre: True
      let ?pt = "preRetirementPoint p y"
      from "1.IH"(1) [OF True pre] obtain news where
        n: "generateProjections_loop p (y + 1) (projections @ [?pt])
              = Inr ((projections @ [?pt]) @ news)"
           "map ProjectionPoint.year news = [y + 1..maxAge p]"
           "map ProjectionPoint.age news
              = map (\<lambda>k. GrowthProjectionProps.currentAge p + k) [y + 1..maxAge p]"
        by auto
      have "generateProjections_loop p y projections = Inr (projections @ (?pt # news))"
        using n(1) by (simp add: gp_unfold_pre [OF True pre])
      moreover have "map ProjectionPoint.year (?pt # news) = [y..maxAge p]"
        using n(2) True by (simp add: upto_rec1 preRetirementPoint_year)
      moreover have "map ProjectionPoint.age (?pt # news)
           = map (\<lambda>k. GrowthProjectionProps.currentAge p + k) [y..maxAge p]"
        using n(3) True by (simp add: upto_rec1 preRetirementPoint_year)
      ultimately show ?thesis by blast
    next
      case post: False
      with "1.prems" have ne: "projections \<noteq> []"
        by simp
      let ?pt = "postRetirementPoint p y (last projections)"
      from "1.IH"(2) [OF True post ne] obtain news where
        n: "generateProjections_loop p (y + 1) (projections @ [?pt])
              = Inr ((projections @ [?pt]) @ news)"
           "map ProjectionPoint.year news = [y + 1..maxAge p]"
           "map ProjectionPoint.age news
              = map (\<lambda>k. GrowthProjectionProps.currentAge p + k) [y + 1..maxAge p]"
        by auto
      have "generateProjections_loop p y projections = Inr (projections @ (?pt # news))"
        using n(1) by (simp add: gp_unfold_post [OF True post ne])
      moreover have "map ProjectionPoint.year (?pt # news) = [y..maxAge p]"
        using n(2) True by (simp add: upto_rec1 postRetirementPoint_year)
      moreover have "map ProjectionPoint.age (?pt # news)
           = map (\<lambda>k. GrowthProjectionProps.currentAge p + k) [y..maxAge p]"
        using n(3) True by (simp add: upto_rec1 postRetirementPoint_year)
      ultimately show ?thesis by blast
    qed
  qed
qed

lemma generateProjections_years:
  assumes "GrowthProjectionProps.currentAge p \<le> GrowthProjectionProps.retirementAge p"
  shows "\<exists>rows. generateProjections p = Inr rows
      \<and> map ProjectionPoint.year rows = [0..maxAge p]
      \<and> map ProjectionPoint.age rows
          = map (\<lambda>k. GrowthProjectionProps.currentAge p + k) [0..maxAge p]"
  using gp_loop_years [of "[]" 0 p] assms
  by (simp add: generateProjections_def yearsToRetirement_GP_def)

text \<open>Past the retirement age the very first pass reads a point that was never pushed.\<close>

lemma generateProjections_throws:
  assumes "GrowthProjectionProps.retirementAge p < GrowthProjectionProps.currentAge p"
    and "0 \<le> maxAge p"
  shows "generateProjections p = Inl TypeError"
  unfolding generateProjections_def using assms
  by (intro gp_throw) (simp_all add: yearsToRetirement_GP_def)

text \<open>
  C9, at a state of age 30 retiring at 65 and viewed to 65. The series of
  \<open>simulateYearly\<close> has one row for each offset from 0 to \<open>100 - 30\<close>, in order. The
  series of \<open>generateProjections\<close> runs its offsets up to \<open>maxAge\<close>, an age: 67 points, for
  the offsets 0 to 66, the last one at age 96, where an end at the viewed age would give
  the offsets 0 to 35.
\<close>

theorem projection_series_offsets:
  "map year (simulateYearly scenarioDefault) = [0..70]
   \<and> (\<exists>rows. generateProjections (growthProjectionProps scenarioDefault 65) = Inr rows
        \<and> map ProjectionPoint.year rows = [0..66]
        \<and> length rows = 67
        \<and> ProjectionPoint.age (last rows) = 96)"
proof
  show "map year (simulateYearly scenarioDefault) = [0..70]"
    by (simp add: simulateYearly_years endAge_def scenarioDefault_def)
next
  let ?p = "growthProjectionProps scenarioDefault 65"
  have a: "GrowthProjectionProps.currentAge ?p = 30" "GrowthProjectionProps.retirementAge ?p = 65"
    and m: "maxAge ?p = 66"
    by (simp_all add: growthProjectionProps_def scenarioDefault_def maxAge_def)
  from generateProjections_years [of ?p] a obtain rows where
    r: "generateProjections ?p = Inr rows" "map ProjectionPoint.year rows = [0..66]"
       "map ProjectionPoint.age rows = map (\<lambda>k. 30 + k) [0..66]"
    unfolding m by auto
  have len: "length rows = 67"
    using arg_cong [OF r(2), of length] by simp
  then have ne: "rows \<noteq> []"
    by auto
  have "ProjectionPoint.age (last rows) = last (map ProjectionPoint.age rows)"
    using ne by (simp add: last_map)
  also have "\<dots> = map (\<lambda>k. 30 + k) [0..66] ! 66"
    unfolding r(3) by (subst last_conv_nth) simp_all
  also have "\<dots> = 96"
    by (simp add: nth_upto)
  finally show "\<exists>rows. generateProjections ?p = Inr rows
        \<and> map ProjectionPoint.year rows = [0..66]
        \<and> length rows = 67
        \<and> ProjectionPoint.age (last rows) = 96"
    using r len by blast
qed

end
